theory Spec2Isabelle
  imports Complex_Main
begin

section \<open>Arrays, errors and the trace\<close>

text \<open>
  The notebook \<^verbatim>\<open>custom_estimators.ipynb\<close> defines one estimator, \<^verbatim>\<open>MyClassifier\<close>,
  that wraps a library classifier and calls three library validators. Arrays are modelled
  the way numpy holds them: a shape and the elements in row-major order. An element is a
  finite number or one of the non-finite floating point values.
\<close>

datatype scalar = Num rat | NaN | PosInf | NegInf

record ndarray =
  shape :: "nat list"
  elems :: "scalar list"

fun is_finite :: "scalar \<Rightarrow> bool" where
  "is_finite (Num q) = True"
| "is_finite NaN = False"
| "is_finite PosInf = False"
| "is_finite NegInf = False"

text \<open>Python's \<^verbatim>\<open>len(a)\<close>: the first dimension; a 0-d array has no length (TypeError).\<close>

definition len :: "ndarray \<Rightarrow> nat option" where
  "len a = (case shape a of [] \<Rightarrow> None | n # ds \<Rightarrow> Some n)"

text \<open>The number of columns of a 2-d array.\<close>

definition n_features :: "ndarray \<Rightarrow> nat option" where
  "n_features a = (case shape a of [n, f] \<Rightarrow> Some f | _ \<Rightarrow> None)"

text \<open>The positions of the non-finite elements.\<close>

definition non_finite_positions :: "ndarray \<Rightarrow> nat list" where
  "non_finite_positions a = filter (\<lambda>i. \<not> is_finite (elems a ! i)) [0 ..< length (elems a)]"

datatype error =
    NotFittedError
  | ShapeMismatchError
  | EmptyInputError
  | DimensionalityError
  | InvalidValueError "nat list"
  | FeatureShapeMismatchError
  | FitError
  | TypeError
  | AttributeError
  | EmptyGridError

text \<open>
  The records the code hands to \<^verbatim>\<open>logger.debug\<close>, one constructor per f-string of the
  source: \<^verbatim>\<open>f"C: {self.C}"\<close>, \<^verbatim>\<open>f"fitting on {len(X)} samples"\<close>, \<^verbatim>\<open>"fit end/"\<close>,
  \<^verbatim>\<open>f"predicting on {len(X)} samples"\<close>, \<^verbatim>\<open>f"decision function on {len(X)} samples"\<close>.
\<close>

datatype message =
    Msg_C rat
  | Msg_fitting_on nat
  | Msg_fit_end
  | Msg_predicting_on nat
  | Msg_decision_function_on nat

type_synonym fit_params = "(string \<times> ndarray) list"

section \<open>The library validators\<close>

text \<open>
  Modelled from the spec: \<^verbatim>\<open>check_array\<close> is the library's feature validator
  (\<^verbatim>\<open>validate_features\<close> of section 4.1), of which the notebook shows only the signature
  and the docstring. With the defaults the code uses (two-dimensional, all finite, at least
  one sample and one feature) it fails with DimensionalityError when the rank is not 2,
  with InvalidValueError naming the offending positions when a value is not finite, with
  EmptyInputError below the minimum counts, and otherwise returns the array, unchanged.
  Every element of the model is numeric, so the numeric coercion cannot fail.
\<close>

definition check_array :: "ndarray \<Rightarrow> error + ndarray" where
  "check_array a =
     (case shape a of
        [n, f] \<Rightarrow>
          if non_finite_positions a \<noteq> [] then Inl (InvalidValueError (non_finite_positions a))
          else if n < 1 then Inl EmptyInputError
          else if f < 1 then Inl EmptyInputError
          else Inr a
      | _ \<Rightarrow> Inl DimensionalityError)"

text \<open>
  Modelled from the spec: the label half of \<^verbatim>\<open>check_X_y\<close> with
  \<^verbatim>\<open>multi_output=False\<close>: the labels are one-dimensional and finite.
\<close>

definition check_labels :: "ndarray \<Rightarrow> error + ndarray" where
  "check_labels a =
     (case shape a of
        [n] \<Rightarrow>
          if non_finite_positions a \<noteq> [] then Inl (InvalidValueError (non_finite_positions a))
          else Inr a
      | _ \<Rightarrow> Inl DimensionalityError)"

text \<open>
  Modelled from the spec: \<^verbatim>\<open>check_X_y\<close> is the library's joint validator
  (\<^verbatim>\<open>validate_features_and_labels\<close> of section 4.1; the notebook shows its signature and
  docstring: "Checks X and y for consistent length, enforces X to be 2D and y 1D"). A
  disagreement of the sample counts is ShapeMismatchError whatever else holds of the two
  arrays (section 8); an input with no sample count at all violates the rank constraint.
\<close>

definition check_X_y :: "ndarray \<Rightarrow> ndarray \<Rightarrow> error + (ndarray \<times> ndarray)" where
  "check_X_y X y =
     (case (len X, len y) of
        (Some n, Some k) \<Rightarrow>
          if n \<noteq> k then Inl ShapeMismatchError
          else (case check_array X of
                  Inl e \<Rightarrow> Inl e
                | Inr X' \<Rightarrow>
                    (case check_labels y of
                       Inl e \<Rightarrow> Inl e
                     | Inr y' \<Rightarrow> Inr (X', y')))
      | _ \<Rightarrow> Inl DimensionalityError)"

section \<open>The estimator\<close>

text \<open>
  The wrapped classifier (\<^verbatim>\<open>SVC\<close> in the source) is a library object whose algorithm is
  out of scope: it is a parameter of the model, a record of the four operations the code
  calls on it. \<open>'m\<close> is the type of its fitted state.
\<close>

record 'm SVC =
  svc_fit :: "rat \<Rightarrow> ndarray \<Rightarrow> ndarray \<Rightarrow> fit_params \<Rightarrow> error + 'm"
  svc_classes :: "'m \<Rightarrow> ndarray"
  svc_predict :: "'m \<Rightarrow> ndarray \<Rightarrow> error + ndarray"
  svc_decision_function :: "'m \<Rightarrow> ndarray \<Rightarrow> error + ndarray"

text \<open>
  An instance of \<^verbatim>\<open>MyClassifier\<close>: the constructor parameter \<^verbatim>\<open>C\<close> and the two
  attributes \<^verbatim>\<open>fit\<close> assigns, \<^verbatim>\<open>estimator_\<close> and \<^verbatim>\<open>classes_\<close> (a name cannot end
  with an underscore here, hence \<open>estimator_attr\<close> and \<open>classes_attr\<close>). \<open>None\<close> is
  an attribute the object does not have.
\<close>

record 'm MyClassifier =
  C :: rat
  estimator_attr :: "'m option"
  classes_attr :: "ndarray option"

text \<open>
  The state of a run: the objects by reference, the next free reference, the level of the
  logger \<^verbatim>\<open>mymodule\<close> and the records emitted so far (level number and message; the
  timestamp of a record is not modelled).
\<close>

record 'm world =
  objs :: "nat \<Rightarrow> 'm MyClassifier"
  next_ref :: nat
  log_level :: nat
  trace :: "(nat \<times> message) list"

definition DEBUG :: nat where
  "DEBUG = 10"

definition INFO :: nat where
  "INFO = 20"

definition NOTSET :: nat where
  "NOTSET = 0"

definition WARNING :: nat where
  "WARNING = 30"

definition setLevel :: "nat \<Rightarrow> 'm world \<Rightarrow> 'm world" where
  "setLevel l w = w\<lparr>log_level := l\<rparr>"

text \<open>
  The level that counts for the logger: its own, or at NOTSET the level of the root
  logger, which \<^verbatim>\<open>logging.basicConfig(format=FORMAT)\<close> leaves at WARNING.
\<close>

definition getEffectiveLevel :: "'m world \<Rightarrow> nat" where
  "getEffectiveLevel w = (if log_level w = NOTSET then WARNING else log_level w)"

text \<open>\<^verbatim>\<open>logger.debug(msg)\<close>: the record is emitted when DEBUG is enabled for the logger.\<close>

definition logger_debug :: "message \<Rightarrow> 'm world \<Rightarrow> 'm world" where
  "logger_debug msg w =
     (if getEffectiveLevel w \<le> DEBUG then w\<lparr>trace := trace w @ [(DEBUG, msg)]\<rparr> else w)"

text \<open>
  Modelled from the spec: \<^verbatim>\<open>check_is_fitted\<close> is the library's fitted-state guard
  (\<^verbatim>\<open>require_fitted\<close> of section 4.2): it fails with NotFittedError if any expected
  fitted attribute is absent and is a no-op otherwise.
\<close>

definition check_is_fitted :: "'m MyClassifier \<Rightarrow> error + unit" where
  "check_is_fitted est =
     (if estimator_attr est = None \<or> classes_attr est = None then Inl NotFittedError else Inr ())"

text \<open>\<^verbatim>\<open>__init__(self, C=1)\<close> sets the parameter and nothing else.\<close>

definition init :: "rat \<Rightarrow> 'm MyClassifier" where
  "init c = \<lparr>C = c, estimator_attr = None, classes_attr = None\<rparr>"

text \<open>\<^verbatim>\<open>MyClassifier(C=c)\<close>: a new object, returned by reference.\<close>

definition new :: "rat \<Rightarrow> 'm world \<Rightarrow> nat \<times> 'm world" where
  "new c w =
     (next_ref w, w\<lparr>objs := (objs w)(next_ref w := init c), next_ref := Suc (next_ref w)\<rparr>)"

definition set_estimator :: "nat \<Rightarrow> 'm \<Rightarrow> 'm world \<Rightarrow> 'm world" where
  "set_estimator self m w = w\<lparr>objs := (objs w)(self := (objs w self)\<lparr>estimator_attr := Some m\<rparr>)\<rparr>"

definition set_classes :: "nat \<Rightarrow> ndarray \<Rightarrow> 'm world \<Rightarrow> 'm world" where
  "set_classes self cs w = w\<lparr>objs := (objs w)(self := (objs w self)\<lparr>classes_attr := Some cs\<rparr>)\<rparr>"

text \<open>
  \<^verbatim>\<open>fit(self, X, y, **fit_params)\<close>, statement by statement. An exception leaves the
  world as it was when it was raised. The result is the reference \<^verbatim>\<open>self\<close>.
\<close>

definition fit ::
  "'m SVC \<Rightarrow> nat \<Rightarrow> ndarray \<Rightarrow> ndarray \<Rightarrow> fit_params \<Rightarrow> 'm world \<Rightarrow> (error + nat) \<times> 'm world" where
  "fit svc self X y fit_params w =
     (case check_X_y X y of
        Inl e \<Rightarrow> (Inl e, w)
      | Inr (X', y') \<Rightarrow>
          (let w1 = logger_debug (Msg_C (C (objs w self))) w in
           case len X' of
             None \<Rightarrow> (Inl TypeError, w1)
           | Some n \<Rightarrow>
               (let w2 = logger_debug (Msg_fitting_on n) w1 in
                case svc_fit svc (C (objs w2 self)) X' y' fit_params of
                  Inl e \<Rightarrow> (Inl e, w2)
                | Inr m \<Rightarrow>
                    (let w3 = set_estimator self m w2;
                         w4 = logger_debug Msg_fit_end w3
                     in case estimator_attr (objs w4 self) of
                          None \<Rightarrow> (Inl AttributeError, w4)
                        | Some m' \<Rightarrow> (Inr self, set_classes self (svc_classes svc m') w4)))))"

text \<open>\<^verbatim>\<open>predict(self, X)\<close>: the guard, the validation, the trace record, the wrapped call.\<close>

definition predict ::
  "'m SVC \<Rightarrow> nat \<Rightarrow> ndarray \<Rightarrow> 'm world \<Rightarrow> (error + ndarray) \<times> 'm world" where
  "predict svc self X w =
     (case check_is_fitted (objs w self) of
        Inl e \<Rightarrow> (Inl e, w)
      | Inr u \<Rightarrow>
          (case check_array X of
             Inl e \<Rightarrow> (Inl e, w)
           | Inr X' \<Rightarrow>
               (case len X' of
                  None \<Rightarrow> (Inl TypeError, w)
                | Some n \<Rightarrow>
                    (let w1 = logger_debug (Msg_predicting_on n) w in
                     case estimator_attr (objs w1 self) of
                       None \<Rightarrow> (Inl AttributeError, w1)
                     | Some m \<Rightarrow> (svc_predict svc m X', w1)))))"

definition decision_function ::
  "'m SVC \<Rightarrow> nat \<Rightarrow> ndarray \<Rightarrow> 'm world \<Rightarrow> (error + ndarray) \<times> 'm world" where
  "decision_function svc self X w =
     (case check_is_fitted (objs w self) of
        Inl e \<Rightarrow> (Inl e, w)
      | Inr u \<Rightarrow>
          (case check_array X of
             Inl e \<Rightarrow> (Inl e, w)
           | Inr X' \<Rightarrow>
               (case len X' of
                  None \<Rightarrow> (Inl TypeError, w)
                | Some n \<Rightarrow>
                    (let w1 = logger_debug (Msg_decision_function_on n) w in
                     case estimator_attr (objs w1 self) of
                       None \<Rightarrow> (Inl AttributeError, w1)
                     | Some m \<Rightarrow> (svc_decision_function svc m X', w1)))))"

section \<open>Contracts of the wrapped classifier\<close>

text \<open>
  Modelled from the spec: the canonical record of the distinct label classes
  (section 4.4) is the distinct labels in ascending order, as an array.
\<close>

fun finite_values :: "scalar list \<Rightarrow> rat list" where
  "finite_values [] = []"
| "finite_values (Num q # vs) = q # finite_values vs"
| "finite_values (v # vs) = finite_values vs"

definition unique :: "ndarray \<Rightarrow> ndarray" where
  "unique y =
     \<lparr>shape = [length (sort (remdups (finite_values (elems y))))],
      elems = map Num (sort (remdups (finite_values (elems y))))\<rparr>"

text \<open>
  What the theorems below ask of the wrapped classifier is stated as predicates on the
  record, one per clause.

  A fitted classifier exposes the canonical record of the labels it was trained on.
\<close>

definition records_label_classes :: "'m SVC \<Rightarrow> bool" where
  "records_label_classes svc \<longleftrightarrow>
     (\<forall>c X y fp m. svc_fit svc c X y fp = Inr m \<longrightarrow> svc_classes svc m = unique y)"

text \<open>
  A fitted classifier answers valid features of the dimensionality it was trained on with
  one label per sample.
\<close>

definition predicts_per_sample :: "'m SVC \<Rightarrow> bool" where
  "predicts_per_sample svc \<longleftrightarrow>
     (\<forall>c X y fp m X2 n.
        svc_fit svc c X y fp = Inr m \<and> check_array X2 = Inr X2 \<and>
        n_features X2 = n_features X \<and> len X2 = Some n \<longrightarrow>
        (\<exists>p. svc_predict svc m X2 = Inr p \<and> shape p = [n] \<and> length (elems p) = n))"

text \<open>
  Modelled from the spec: the dimensionality check of \<^verbatim>\<open>predict\<close> (section 4.4) is made
  by the wrapped classifier's own \<^verbatim>\<open>predict\<close>, which is library code the notebook calls
  and does not show: valid features of another dimensionality than the one seen at fit
  time fail with FeatureShapeMismatchError.
\<close>

definition rejects_other_dimensionality :: "'m SVC \<Rightarrow> bool" where
  "rejects_other_dimensionality svc \<longleftrightarrow>
     (\<forall>c X y fp m X2.
        svc_fit svc c X y fp = Inr m \<and> check_array X2 = Inr X2 \<and>
        n_features X2 \<noteq> n_features X \<longrightarrow>
        svc_predict svc m X2 = Inl FeatureShapeMismatchError)"

text \<open>
  A small wrapped classifier that meets the three contracts, on which the theorems are
  exercised at concrete inputs: it remembers the number of features and the canonical
  record of the labels, refuses labels of fewer than two classes (as the library's
  classifier does), and predicts the first class of the record for every sample.
\<close>

record toy_model =
  seen_features :: "nat option"
  seen_classes :: "scalar list"

definition toy_answer :: "toy_model \<Rightarrow> scalar \<Rightarrow> ndarray \<Rightarrow> error + ndarray" where
  "toy_answer m v X =
     (if n_features X \<noteq> seen_features m then Inl FeatureShapeMismatchError
      else case len X of
             None \<Rightarrow> Inl TypeError
           | Some n \<Rightarrow> Inr \<lparr>shape = [n], elems = replicate n v\<rparr>)"

definition toy_svc :: "toy_model SVC" where
  "toy_svc =
     \<lparr>svc_fit = (\<lambda>c X y fp.
         if length (elems (unique y)) < 2 then Inl FitError
         else Inr \<lparr>seen_features = n_features X, seen_classes = elems (unique y)\<rparr>),
      svc_classes = (\<lambda>m. \<lparr>shape = [length (seen_classes m)], elems = seen_classes m\<rparr>),
      svc_predict = (\<lambda>m X.
         toy_answer m (case seen_classes m of [] \<Rightarrow> Num 0 | v # vs \<Rightarrow> v) X),
      svc_decision_function = (\<lambda>m X. toy_answer m (Num 0) X)\<rparr>"

text \<open>A world with one unfitted instance, at reference 0, and the logger at DEBUG.\<close>

definition world0 :: "toy_model world" where
  "world0 = \<lparr>objs = (\<lambda>r. init 1), next_ref = 1, log_level = 10, trace = []\<rparr>"

text \<open>Four samples of two features, and labels of two classes.\<close>

definition X4 :: ndarray where
  "X4 = \<lparr>shape = [4, 2], elems = map Num [1, 2, 3, 4, 5, 6, 7, 8]\<rparr>"

definition y4 :: ndarray where
  "y4 = \<lparr>shape = [4], elems = map Num [0, 1, 1, 0]\<rparr>"

text \<open>Labels of a single class for the same four samples.\<close>

definition y4_one_class :: ndarray where
  "y4_one_class = \<lparr>shape = [4], elems = map Num [1, 1, 1, 1]\<rparr>"

text \<open>One sample of three features.\<close>

definition X13 :: ndarray where
  "X13 = \<lparr>shape = [1, 3], elems = map Num [1, 2, 3]\<rparr>"

text \<open>One sample of three features, the second of them not finite.\<close>

definition X13_nan :: ndarray where
  "X13_nan = \<lparr>shape = [1, 3], elems = [Num 1, NaN, Num 3]\<rparr>"



section \<open>Estimator tags\<close>



section \<open>Grid search\<close>

text \<open>The candidate mapping of the notebook, in the order it is written.\<close>

definition param_grid :: "(string \<times> rat list) list" where
  "param_grid =
     [(''selectkbest__k'', [1, 2, 5, 10, 20]),
      (''myclassifier__C'', [1 / 10, 1, 100])]"

text \<open>
  Modelled from the spec: the grid search is the library's (\<^verbatim>\<open>GridSearchCV\<close>), which the
  notebook calls and does not show. Section 4.5: it enumerates the cartesian product of
  the candidates, fits one composed pipeline per combination, evaluates each, and retains
  the combination with the best score, ties broken by first-seen order in the
  enumeration; it fails with EmptyGridError if the candidate mapping is empty. Fitting a
  pipeline on the training split and scoring it on the held-out split are parameters
  (\<open>fit_pipeline\<close>, \<open>score\<close>). A mapping with an empty candidate list has no combination
  to retain and is refused like the empty mapping.
\<close>

fun combinations :: "(string \<times> 'v list) list \<Rightarrow> (string \<times> 'v) list list" where
  "combinations [] = [[]]"
| "combinations ((k, vs) # grid) =
     concat (map (\<lambda>v. map (\<lambda>combo. (k, v) # combo) (combinations grid)) vs)"

text \<open>
  Modelled from the spec: the best score, the first seen among equals (section 4.5): a
  later pipeline replaces the retained one only when it scores strictly more.
\<close>

fun first_best :: "('p \<Rightarrow> rat) \<Rightarrow> 'p \<Rightarrow> 'p list \<Rightarrow> 'p" where
  "first_best score best [] = best"
| "first_best score best (p # ps) =
     first_best score (if score best < score p then p else best) ps"

text \<open>
  Modelled from the spec: the grid search of section 4.5. It returns the fitted pipelines
  in the order of the enumeration and the one it retains.
\<close>

definition grid_search ::
  "((string \<times> 'v) list \<Rightarrow> 'p) \<Rightarrow> ('p \<Rightarrow> rat) \<Rightarrow> (string \<times> 'v list) list \<Rightarrow> error + ('p list \<times> 'p)" where
  "grid_search fit_pipeline score grid =
     (if grid = [] then Inl EmptyGridError
      else case map fit_pipeline (combinations grid) of
             [] \<Rightarrow> Inl EmptyGridError
           | p # ps \<Rightarrow> Inr (p # ps, first_best score p ps))"

section \<open>Frame lemmas\<close>

lemma objs_logger_debug [simp]: "objs (logger_debug msg w) = objs w"
  by (simp add: logger_debug_def)

lemma log_level_logger_debug [simp]: "log_level (logger_debug msg w) = log_level w"
  by (simp add: logger_debug_def)

lemma next_ref_logger_debug [simp]: "next_ref (logger_debug msg w) = next_ref w"
  by (simp add: logger_debug_def)

lemma objs_set_estimator [simp]:
  "objs (set_estimator self m w) = (objs w)(self := (objs w self)\<lparr>estimator_attr := Some m\<rparr>)"
  by (simp add: set_estimator_def)

lemma objs_set_classes [simp]:
  "objs (set_classes self cs w) = (objs w)(self := (objs w self)\<lparr>classes_attr := Some cs\<rparr>)"
  by (simp add: set_classes_def)

section \<open>What the validators return\<close>

lemma check_array_Inr: "check_array a = Inr a' \<Longrightarrow> a' = a \<and> (\<exists>n f. shape a = [n, f])"
  by (auto simp: check_array_def split: list.splits if_splits)

lemma check_labels_Inr: "check_labels a = Inr a' \<Longrightarrow> a' = a"
  by (auto simp: check_labels_def split: list.splits if_splits)

lemma check_X_y_Inr:
  assumes "check_X_y X y = Inr (X', y')"
  shows "X' = X" and "y' = y" and "check_array X = Inr X" and "len y = len X"
    and "\<exists>n. len X = Some n"
  using assms
  by (auto simp: check_X_y_def split: option.splits if_splits sum.splits
      dest: check_array_Inr check_labels_Inr)

lemma check_array_len: "check_array a = Inr a' \<Longrightarrow> \<exists>n. len a' = Some n"
  by (auto simp: len_def dest!: check_array_Inr)

section \<open>The paths of fit and predict\<close>

text \<open>
  \<^verbatim>\<open>fit\<close> with its local bindings expanded: one case per path through the body.
\<close>

lemma fit_unfold:
  "fit svc self X y fp w =
     (case check_X_y X y of
        Inl e \<Rightarrow> (Inl e, w)
      | Inr (X', y') \<Rightarrow>
          (case len X' of
             None \<Rightarrow> (Inl TypeError, logger_debug (Msg_C (C (objs w self))) w)
           | Some n \<Rightarrow>
               (case svc_fit svc (C (objs w self)) X' y' fp of
                  Inl e \<Rightarrow> (Inl e, logger_debug (Msg_fitting_on n) (logger_debug (Msg_C (C (objs w self))) w))
                | Inr m \<Rightarrow> (Inr self, set_classes self (svc_classes svc m)
                     (logger_debug Msg_fit_end (set_estimator self m
                        (logger_debug (Msg_fitting_on n) (logger_debug (Msg_C (C (objs w self))) w))))))))"
  by (simp add: fit_def Let_def split: sum.split prod.split option.split)

lemma fit_success:
  assumes "check_X_y X y = Inr (X', y')"
      and "svc_fit svc (C (objs w self)) X' y' fp = Inr m"
  shows "fst (fit svc self X y fp w) = Inr self"
    and "objs (snd (fit svc self X y fp w)) =
           (objs w)(self := (objs w self)\<lparr>estimator_attr := Some m,
                                         classes_attr := Some (svc_classes svc m)\<rparr>)"
proof -
  obtain n where "len X' = Some n"
    using assms(1) check_X_y_Inr(1,5) by blast
  with assms show "fst (fit svc self X y fp w) = Inr self"
    and "objs (snd (fit svc self X y fp w)) =
           (objs w)(self := (objs w self)\<lparr>estimator_attr := Some m,
                                         classes_attr := Some (svc_classes svc m)\<rparr>)"
    by (simp_all add: fit_unfold)
qed




lemma predict_fitted:
  assumes "estimator_attr (objs w self) = Some m" and "classes_attr (objs w self) = Some cs"
      and "check_array X = Inr X'"
  shows "fst (predict svc self X w) = svc_predict svc m X"
proof -
  have "X' = X" using assms(3) by (simp add: check_array_Inr)
  moreover obtain n where "len X = Some n"
    using assms(3) check_array_len \<open>X' = X\<close> by blast
  ultimately show ?thesis
    using assms by (simp add: predict_def check_is_fitted_def)
qed



lemma fit_failure:
  assumes "check_X_y X y = Inr (X', y')"
      and "svc_fit svc (C (objs w self)) X' y' fp = Inl e"
  shows "fst (fit svc self X y fp w) = Inl e"
    and "objs (snd (fit svc self X y fp w)) = objs w"
proof -
  obtain n where "len X' = Some n"
    using assms(1) check_X_y_Inr(1,5) by blast
  with assms show "fst (fit svc self X y fp w) = Inl e"
    and "objs (snd (fit svc self X y fp w)) = objs w"
    by (simp_all add: fit_unfold)
qed

lemma predict_invalid:
  assumes "check_is_fitted (objs w self) = Inr ()" and "check_array X = Inl e"
  shows "fst (predict svc self X w) = Inl e"
  using assms by (simp add: predict_def)


section \<open>The toy classifier at the sample inputs\<close>

lemma toy_records_label_classes: "records_label_classes toy_svc"
  by (auto simp: records_label_classes_def toy_svc_def unique_def split: if_splits)

lemma toy_predicts_per_sample: "predicts_per_sample toy_svc"
  by (auto simp: predicts_per_sample_def toy_svc_def toy_answer_def split: if_splits)

lemma toy_rejects_other_dimensionality: "rejects_other_dimensionality toy_svc"
  by (auto simp: rejects_other_dimensionality_def toy_svc_def toy_answer_def split: if_splits)

lemma toy_classes:
  "svc_classes toy_svc \<lparr>seen_features = f, seen_classes = cs\<rparr> = \<lparr>shape = [length cs], elems = cs\<rparr>"
  by (simp add: toy_svc_def)

lemma toy_predict:
  "svc_predict toy_svc \<lparr>seen_features = f, seen_classes = v # vs\<rparr> X =
     toy_answer \<lparr>seen_features = f, seen_classes = v # vs\<rparr> v X"
  by (simp add: toy_svc_def)

lemma unique_y4: "unique y4 = \<lparr>shape = [2], elems = [Num 0, Num 1]\<rparr>"
  by (simp add: unique_def y4_def)


lemma unique_y4_one_class: "unique y4_one_class = \<lparr>shape = [1], elems = [Num 1]\<rparr>"
  by (simp add: unique_def y4_one_class_def)

lemma X4_valid: "check_array X4 = Inr X4"
proof -
  have "shape X4 = [4, 2]" by (simp add: X4_def)
  moreover have "non_finite_positions X4 = []"
    by (simp add: non_finite_positions_def X4_def filter_empty_conv nth_Cons')
  ultimately show ?thesis by (simp add: check_array_def)
qed

lemma X13_valid: "check_array X13 = Inr X13"
proof -
  have "shape X13 = [1, 3]" by (simp add: X13_def)
  moreover have "non_finite_positions X13 = []"
    by (simp add: non_finite_positions_def X13_def filter_empty_conv nth_Cons')
  ultimately show ?thesis by (simp add: check_array_def)
qed


lemma X13_nan_invalid: "check_array X13_nan = Inl (InvalidValueError [1])"
proof -
  have "shape X13_nan = [1, 3]" by (simp add: X13_nan_def)
  moreover have "[0 ..< 3] = [0, 1, 2]" by (simp add: upt_rec)
  then have "non_finite_positions X13_nan = [1]"
    by (simp add: non_finite_positions_def X13_nan_def)
  ultimately show ?thesis by (simp add: check_array_def)
qed

lemma y4_valid: "check_labels y4 = Inr y4"
proof -
  have "shape y4 = [4]" by (simp add: y4_def)
  moreover have "non_finite_positions y4 = []"
    by (simp add: non_finite_positions_def y4_def filter_empty_conv nth_Cons')
  ultimately show ?thesis by (simp add: check_labels_def)
qed

lemma y4_one_class_valid: "check_labels y4_one_class = Inr y4_one_class"
proof -
  have "shape y4_one_class = [4]" by (simp add: y4_one_class_def)
  moreover have "non_finite_positions y4_one_class = []"
    by (simp add: non_finite_positions_def y4_one_class_def filter_empty_conv nth_Cons')
  ultimately show ?thesis by (simp add: check_labels_def)
qed


lemma X4_y4_valid: "check_X_y X4 y4 = Inr (X4, y4)"
proof -
  have "len X4 = Some 4" and "len y4 = Some 4" by (simp_all add: len_def X4_def y4_def)
  then show ?thesis by (simp add: check_X_y_def X4_valid y4_valid)
qed

lemma X4_y4_one_class_valid: "check_X_y X4 y4_one_class = Inr (X4, y4_one_class)"
proof -
  have "len X4 = Some 4" and "len y4_one_class = Some 4"
    by (simp_all add: len_def X4_def y4_one_class_def)
  then show ?thesis by (simp add: check_X_y_def X4_valid y4_one_class_valid)
qed


lemma toy_fit_X4_y4:
  "svc_fit toy_svc c X4 y4 fp = Inr \<lparr>seen_features = Some 2, seen_classes = [Num 0, Num 1]\<rparr>"
  by (simp add: toy_svc_def unique_y4) (simp add: X4_def n_features_def)


lemma toy_fit_one_class: "svc_fit toy_svc c X4 y4_one_class fp = Inl FitError"
  by (simp add: toy_svc_def unique_y4_one_class)

lemma fit_X4_y4_returns: "fst (fit toy_svc r X4 y4 fp w) = Inr r"
  using X4_y4_valid toy_fit_X4_y4 by (rule fit_success(1))

section \<open>The guard comes first\<close>

text \<open>
  C1. For every wrapped classifier and every features array, valid or not, \<^verbatim>\<open>predict\<close>
  on a freshly constructed instance, on which \<^verbatim>\<open>fit\<close> was never called, raises
  NotFittedError and changes nothing: the guard is the first statement of \<^verbatim>\<open>predict\<close>
  and the constructor sets no fitted attribute.
\<close>

theorem predict_before_fit_raises:
  "predict svc (fst (new c w)) X (snd (new c w)) = (Inl NotFittedError, snd (new c w))"
  by (simp add: predict_def new_def init_def check_is_fitted_def)

section \<open>What fit returns and leaves behind\<close>

text \<open>
  C2. For every input that validation accepts, the wrapped classifier's own \<^verbatim>\<open>fit\<close>
  decides. When it succeeds, \<^verbatim>\<open>fit\<close> returns the reference it was called on, and
  afterwards the instance passes the fitted-state guard: \<^verbatim>\<open>estimator_\<close> holds the fitted
  wrapped classifier and \<^verbatim>\<open>classes_\<close> the classes it exposes, which for a classifier that
  records its training labels is the canonical record of the distinct labels of \<open>y\<close>.
  When it fails, \<^verbatim>\<open>fit\<close> raises its error and no object has changed.
\<close>

theorem fit_returns_self_fitted:
  assumes "check_X_y X y = Inr (X', y')"
  shows "case svc_fit svc (C (objs w self)) X' y' fit_params of
           Inl e \<Rightarrow>
             fst (fit svc self X y fit_params w) = Inl e \<and>
             objs (snd (fit svc self X y fit_params w)) = objs w
         | Inr m \<Rightarrow>
             fst (fit svc self X y fit_params w) = Inr self \<and>
             check_is_fitted (objs (snd (fit svc self X y fit_params w)) self) = Inr () \<and>
             estimator_attr (objs (snd (fit svc self X y fit_params w)) self) = Some m \<and>
             classes_attr (objs (snd (fit svc self X y fit_params w)) self) =
               Some (svc_classes svc m) \<and>
             (records_label_classes svc \<longrightarrow>
                classes_attr (objs (snd (fit svc self X y fit_params w)) self) = Some (unique y))"
proof (cases "svc_fit svc (C (objs w self)) X' y' fit_params")
  case (Inl e)
  then show ?thesis using fit_failure [OF assms Inl] by simp
next
  case (Inr m)
  have "y' = y" using assms by (rule check_X_y_Inr(2))
  with Inr have "records_label_classes svc \<Longrightarrow> svc_classes svc m = unique y"
    unfolding records_label_classes_def by blast
  then show ?thesis
    using Inr fit_success [OF assms Inr] by (auto simp: check_is_fitted_def)
qed

theorem fit_returns_self_fitted_witness:
  "check_X_y X4 y4 = Inr (X4, y4) \<and> records_label_classes toy_svc \<and>
   fst (fit toy_svc 0 X4 y4 [] world0) = Inr 0 \<and>
   check_is_fitted (objs (snd (fit toy_svc 0 X4 y4 [] world0)) 0) = Inr () \<and>
   estimator_attr (objs (snd (fit toy_svc 0 X4 y4 [] world0)) 0) =
     Some \<lparr>seen_features = Some 2, seen_classes = [Num 0, Num 1]\<rparr> \<and>
   classes_attr (objs (snd (fit toy_svc 0 X4 y4 [] world0)) 0) =
     Some \<lparr>shape = [2], elems = [Num 0, Num 1]\<rparr>"
  using fit_returns_self_fitted [OF X4_y4_valid, where svc = toy_svc and w = world0 and self = 0 and fit_params = "[]"]
    X4_y4_valid toy_records_label_classes
  by (simp add: toy_fit_X4_y4 unique_y4 toy_classes)

text \<open>
  Validation accepts four samples whose labels are all of one class; the wrapped
  classifier refuses them, \<^verbatim>\<open>fit\<close> raises and the instance is not fitted. So \<^verbatim>\<open>fit\<close> does
  not return on every input that validation accepts.
\<close>

theorem fit_returns_self_counterexample:
  "check_X_y X4 y4_one_class = Inr (X4, y4_one_class) \<and>
   fst (fit toy_svc 0 X4 y4_one_class [] world0) = Inl FitError \<and>
   check_is_fitted (objs (snd (fit toy_svc 0 X4 y4_one_class [] world0)) 0) = Inl NotFittedError"
  using X4_y4_one_class_valid fit_failure [OF X4_y4_one_class_valid toy_fit_one_class, where w = world0 and self = 0 and fp = "[]"]
  by (simp add: world0_def init_def check_is_fitted_def)

text \<open>
  C3. For every pair that validation accepts (equal sample counts are part of that) and
  on which the wrapped \<^verbatim>\<open>fit\<close> succeeds, \<^verbatim>\<open>fit\<close> followed by \<^verbatim>\<open>predict\<close> on the same
  features returns what the fitted wrapped classifier's \<^verbatim>\<open>predict\<close> returns on them: for a
  wrapped classifier that answers one label per sample, a one-dimensional array with as
  many entries as there are samples.
\<close>

theorem fit_then_predict_length:
  assumes "check_X_y X y = Inr (X', y')"
      and "svc_fit svc (C (objs w self)) X' y' fit_params = Inr m"
  shows "fst (predict svc self X (snd (fit svc self X y fit_params w))) = svc_predict svc m X \<and>
         (predicts_per_sample svc \<longrightarrow>
            (\<exists>p n. fst (predict svc self X (snd (fit svc self X y fit_params w))) = Inr p \<and>
                   len X = Some n \<and> len p = Some n \<and> shape p = [n] \<and> length (elems p) = n))"
proof -
  have X: "X' = X" "check_array X = Inr X" using assms(1) by (rule check_X_y_Inr)+
  obtain n where n: "len X = Some n" using assms(1) check_X_y_Inr(5) by blast
  have e: "fst (predict svc self X (snd (fit svc self X y fit_params w))) = svc_predict svc m X"
    using fit_success(2) [OF assms] X(2) by (intro predict_fitted) simp_all
  have "\<exists>p. svc_predict svc m X = Inr p \<and> shape p = [n] \<and> length (elems p) = n"
    if "predicts_per_sample svc"
    using that assms(2) X n unfolding predicts_per_sample_def by blast
  with e n show ?thesis by (auto simp: len_def)
qed

theorem fit_then_predict_length_witness:
  "check_X_y X4 y4 = Inr (X4, y4) \<and> predicts_per_sample toy_svc \<and>
   fst (predict toy_svc 0 X4 (snd (fit toy_svc 0 X4 y4 [] world0))) =
     Inr \<lparr>shape = [4], elems = [Num 0, Num 0, Num 0, Num 0]\<rparr> \<and>
   len X4 = Some 4"
proof -
  have "len X4 = Some 4" and "n_features X4 = Some 2"
    by (simp_all add: len_def n_features_def X4_def)
  moreover have "replicate 4 (Num 0) = [Num 0, Num 0, Num 0, Num 0]"
    by (simp add: numeral_eq_Suc)
  ultimately show ?thesis
    using fit_then_predict_length [OF X4_y4_valid toy_fit_X4_y4, where w = world0 and self = 0 and fit_params = "[]"]
      X4_y4_valid toy_predicts_per_sample
    by (simp add: toy_predict toy_answer_def)
qed

text \<open>
  On the valid pair of four samples and four labels of one class, \<^verbatim>\<open>fit\<close> raises, and
  the \<^verbatim>\<open>predict\<close> that follows raises NotFittedError and returns no sequence.
\<close>

theorem fit_then_predict_counterexample:
  "check_X_y X4 y4_one_class = Inr (X4, y4_one_class) \<and>
   len X4 = Some 4 \<and> len y4_one_class = Some 4 \<and>
   fst (fit toy_svc 0 X4 y4_one_class [] world0) = Inl FitError \<and>
   fst (predict toy_svc 0 X4 (snd (fit toy_svc 0 X4 y4_one_class [] world0))) = Inl NotFittedError"
proof -
  have "len X4 = Some 4" and "len y4_one_class = Some 4"
    by (simp_all add: len_def X4_def y4_one_class_def)
  then show ?thesis
    using X4_y4_one_class_valid
      fit_failure [OF X4_y4_one_class_valid toy_fit_one_class, where w = world0 and self = 0 and fp = "[]"]
    by (simp add: predict_def world0_def init_def check_is_fitted_def)
qed

section \<open>Sample counts that disagree\<close>

text \<open>
  C4. For every features array and labels array whose sample counts differ, \<^verbatim>\<open>fit\<close>
  raises ShapeMismatchError, whatever else holds of the two arrays, and leaves the world
  as it was.
\<close>

theorem fit_sample_count_mismatch:
  "len X = Some n \<Longrightarrow> len y = Some k \<Longrightarrow> n \<noteq> k \<Longrightarrow>
   fit svc self X y fit_params w = (Inl ShapeMismatchError, w)"
  by (simp add: fit_def check_X_y_def)

text \<open>
  Two samples, one of them not finite, against three labels.
\<close>

theorem fit_sample_count_mismatch_witness:
  "fit toy_svc 0 \<lparr>shape = [2, 1], elems = [Num 1, NaN]\<rparr>
     \<lparr>shape = [3], elems = [Num 0, Num 1, Num 1]\<rparr> [] world0
   = (Inl ShapeMismatchError, world0)"
  by (rule fit_sample_count_mismatch [where n = 2 and k = 3]) (simp_all add: len_def)

section \<open>Features of another dimensionality\<close>

text \<open>
  C5. On an instance fitted on \<open>X\<close>, \<^verbatim>\<open>predict\<close> first validates the features on their
  own (\<^verbatim>\<open>check_array\<close>) and raises the validation error of features that fail. Features
  that pass are handed to the wrapped classifier's \<^verbatim>\<open>predict\<close>, whose answer is returned:
  the comparison with the dimensionality seen at fit time is the wrapped classifier's, and
  with one that makes it, valid features of another number of columns than \<open>X\<close> raise
  FeatureShapeMismatchError.
\<close>

theorem predict_rejects_other_dimensionality:
  assumes "check_X_y X y = Inr (X', y')"
      and "svc_fit svc (C (objs w self)) X' y' fit_params = Inr m"
  shows "(check_array X2 = Inl e \<longrightarrow>
            fst (predict svc self X2 (snd (fit svc self X y fit_params w))) = Inl e) \<and>
         (check_array X2 = Inr X2 \<longrightarrow>
            fst (predict svc self X2 (snd (fit svc self X y fit_params w))) = svc_predict svc m X2 \<and>
            (rejects_other_dimensionality svc \<and> n_features X2 \<noteq> n_features X \<longrightarrow>
               fst (predict svc self X2 (snd (fit svc self X y fit_params w))) =
                 Inl FeatureShapeMismatchError))"
proof -
  let ?w = "snd (fit svc self X y fit_params w)"
  note s = fit_success(2) [OF assms]
  have g: "check_is_fitted (objs ?w self) = Inr ()"
    by (simp add: s check_is_fitted_def)
  have a: "fst (predict svc self X2 ?w) = Inl e" if "check_array X2 = Inl e"
    using g that by (rule predict_invalid)
  have b: "fst (predict svc self X2 ?w) = svc_predict svc m X2" if "check_array X2 = Inr X2"
    using s that by (intro predict_fitted) simp_all
  have "X' = X" using assms(1) by (rule check_X_y_Inr(1))
  with assms(2) have c: "svc_predict svc m X2 = Inl FeatureShapeMismatchError"
    if "check_array X2 = Inr X2" "rejects_other_dimensionality svc" "n_features X2 \<noteq> n_features X"
    using that unfolding rejects_other_dimensionality_def by blast
  show ?thesis using a b c by auto
qed

theorem predict_rejects_other_dimensionality_witness:
  "check_X_y X4 y4 = Inr (X4, y4) \<and> rejects_other_dimensionality toy_svc \<and>
   check_array X13 = Inr X13 \<and> n_features X13 = Some 3 \<and> n_features X4 = Some 2 \<and>
   fst (predict toy_svc 0 X13 (snd (fit toy_svc 0 X4 y4 [] world0))) = Inl FeatureShapeMismatchError"
proof -
  have n: "n_features X13 = Some 3" "n_features X4 = Some 2"
    by (simp_all add: n_features_def X13_def X4_def)
  then have "n_features X13 \<noteq> n_features X4" by simp
  then show ?thesis
    using predict_rejects_other_dimensionality [OF X4_y4_valid toy_fit_X4_y4, where ?X2.0 = X13 and w = world0 and self = 0 and fit_params = "[]"]
      toy_rejects_other_dimensionality X4_y4_valid X13_valid n
    by (simp add: toy_predict toy_answer_def)
qed

text \<open>
  On an instance fitted on two columns, one sample of three columns with a value that is
  not finite raises InvalidValueError, not FeatureShapeMismatchError: the validation of
  the features comes before the wrapped call.
\<close>

theorem predict_rejects_other_dimensionality_counterexample:
  "fst (fit toy_svc 0 X4 y4 [] world0) = Inr 0 \<and>
   n_features X4 = Some 2 \<and> n_features X13_nan = Some 3 \<and>
   fst (predict toy_svc 0 X13_nan (snd (fit toy_svc 0 X4 y4 [] world0))) =
     Inl (InvalidValueError [1])"
proof -
  have "n_features X4 = Some 2" and "n_features X13_nan = Some 3"
    by (simp_all add: n_features_def X13_nan_def X4_def)
  moreover have "check_is_fitted (objs (snd (fit toy_svc 0 X4 y4 [] world0)) 0) = Inr ()"
    using fit_success(2) [OF X4_y4_valid toy_fit_X4_y4, where w = world0 and self = 0 and fp = "[]"]
    by (simp add: check_is_fitted_def)
  then have "fst (predict toy_svc 0 X13_nan (snd (fit toy_svc 0 X4 y4 [] world0))) =
     Inl (InvalidValueError [1])"
    using X13_nan_invalid by (rule predict_invalid)
  ultimately show ?thesis using fit_X4_y4_returns [of 0 "[]" world0] by simp
qed


section \<open>Parameters are never touched by fit\<close>

text \<open>
  C6. For every instance and every input, \<^verbatim>\<open>fit\<close> leaves the constructor parameter
  \<^verbatim>\<open>C\<close> of the instance as it was, whether it returns or raises: it writes fitted
  attributes only.
\<close>

theorem fit_keeps_parameters:
  "C (objs (snd (fit svc self X y fit_params w)) self) = C (objs w self)"
  by (simp add: fit_def Let_def split: sum.split prod.split option.split)

section \<open>Fitting again\<close>



section \<open>The trace is observational\<close>

text \<open>
  The records of the notebook's first run (\<^verbatim>\<open>C: 1\<close>, \<^verbatim>\<open>fitting on ... samples\<close>,
  \<^verbatim>\<open>fit end/\<close>) at DEBUG, and none at INFO or at NOTSET.
\<close>

lemma trace_at_DEBUG:
  "trace (snd (fit toy_svc 0 X4 y4 [] world0)) =
     [(DEBUG, Msg_C 1), (DEBUG, Msg_fitting_on 4), (DEBUG, Msg_fit_end)]"
proof -
  have "len X4 = Some 4" by (simp add: len_def X4_def)
  then show ?thesis
    using X4_y4_valid toy_fit_X4_y4 [of _ "[]"]
    by (simp add: fit_unfold set_classes_def set_estimator_def logger_debug_def world0_def
        getEffectiveLevel_def NOTSET_def DEBUG_def init_def)
qed

lemma trace_at_INFO:
  "trace (snd (fit toy_svc 0 X4 y4 [] (setLevel INFO world0))) = []"
proof -
  have "len X4 = Some 4" by (simp add: len_def X4_def)
  then show ?thesis
    using X4_y4_valid toy_fit_X4_y4 [of _ "[]"]
    by (simp add: fit_unfold set_classes_def set_estimator_def logger_debug_def world0_def
        getEffectiveLevel_def NOTSET_def DEBUG_def INFO_def setLevel_def)
qed

lemma trace_at_NOTSET:
  "trace (snd (fit toy_svc 0 X4 y4 [] (setLevel NOTSET world0))) = []"
proof -
  have "len X4 = Some 4" by (simp add: len_def X4_def)
  then show ?thesis
    using X4_y4_valid toy_fit_X4_y4 [of _ "[]"]
    by (simp add: fit_unfold set_classes_def set_estimator_def logger_debug_def world0_def
        getEffectiveLevel_def NOTSET_def WARNING_def DEBUG_def setLevel_def)
qed

text \<open>
  C8. For every input, two runs of \<^verbatim>\<open>fit\<close>, \<^verbatim>\<open>predict\<close> or \<^verbatim>\<open>decision_function\<close> that
  differ only in the level of the logger return the same value (or raise the same error)
  and leave the same objects: the level decides what is written to the trace and
  nothing else.
\<close>

theorem trace_is_observational:
  "fst (fit svc self X y fit_params (setLevel l w)) = fst (fit svc self X y fit_params w) \<and>
   objs (snd (fit svc self X y fit_params (setLevel l w))) = objs (snd (fit svc self X y fit_params w)) \<and>
   fst (predict svc self X (setLevel l w)) = fst (predict svc self X w) \<and>
   objs (snd (predict svc self X (setLevel l w))) = objs (snd (predict svc self X w)) \<and>
   fst (decision_function svc self X (setLevel l w)) = fst (decision_function svc self X w) \<and>
   objs (snd (decision_function svc self X (setLevel l w))) = objs (snd (decision_function svc self X w))"
  by (simp add: fit_unfold predict_def decision_function_def setLevel_def Let_def
      split: sum.split prod.split option.split)

section \<open>Grid search over the notebook's candidates\<close>

lemma first_best_split:
  "\<exists>pre post. b # ps = pre @ first_best score b ps # post \<and>
     (\<forall>p\<in>set pre. score p < score (first_best score b ps)) \<and>
     (\<forall>p\<in>set post. score p \<le> score (first_best score b ps))"
proof (induction ps arbitrary: b)
  case Nil
  show ?case by (intro exI [of _ "[]"]) simp
next
  case (Cons p ps)
  show ?case
  proof (cases "score b < score p")
    case True
    let ?best = "first_best score p ps"
    from Cons.IH [of p] obtain pre post where s: "p # ps = pre @ ?best # post"
      and lt: "\<forall>q\<in>set pre. score q < score ?best"
      and le: "\<forall>q\<in>set post. score q \<le> score ?best"
      by blast
    have "score p \<le> score ?best"
      using s lt by (cases pre) auto
    with True have "\<forall>q\<in>set (b # pre). score q < score ?best"
      using lt by auto
    moreover have "b # p # ps = (b # pre) @ ?best # post" using s by simp
    moreover have "first_best score b (p # ps) = ?best" using True by simp
    ultimately show ?thesis using le by metis
  next
    case False
    let ?best = "first_best score b ps"
    have best: "first_best score b (p # ps) = ?best" using False by simp
    from Cons.IH [of b] obtain pre post where s: "b # ps = pre @ ?best # post"
      and lt: "\<forall>q\<in>set pre. score q < score ?best"
      and le: "\<forall>q\<in>set post. score q \<le> score ?best"
      by blast
    show ?thesis
    proof (cases pre)
      case Nil
      from s have "b # ps = ?best # post" unfolding Nil append_Nil .
      then have "?best = b" and "post = ps" by (metis list.inject)+
      then have "b # p # ps = [] @ ?best # (p # post)" by simp
      moreover have "\<forall>q\<in>set (p # post). score q \<le> score ?best"
        using False le \<open>?best = b\<close> by auto
      moreover have "\<forall>q\<in>set ([] :: 'a list). score q < score ?best" by simp
      ultimately show ?thesis unfolding best by blast
    next
      case (Cons a pre')
      from s have "b # ps = a # (pre' @ ?best # post)" unfolding Cons append_Cons .
      then have "a = b" and "ps = pre' @ ?best # post" by (metis list.inject)+
      then have "b # p # ps = (b # p # pre') @ ?best # post" by simp
      moreover have "score b < score ?best" using lt Cons \<open>a = b\<close> by simp
      then have "\<forall>q\<in>set (b # p # pre'). score q < score ?best"
        using False lt Cons by auto
      ultimately show ?thesis unfolding best using le by blast
    qed
  qed
qed

lemma combinations_param_grid:
  "combinations param_grid =
     [[(''selectkbest__k'', 1), (''myclassifier__C'', 1 / 10)],
      [(''selectkbest__k'', 1), (''myclassifier__C'', 1)],
      [(''selectkbest__k'', 1), (''myclassifier__C'', 100)],
      [(''selectkbest__k'', 2), (''myclassifier__C'', 1 / 10)],
      [(''selectkbest__k'', 2), (''myclassifier__C'', 1)],
      [(''selectkbest__k'', 2), (''myclassifier__C'', 100)],
      [(''selectkbest__k'', 5), (''myclassifier__C'', 1 / 10)],
      [(''selectkbest__k'', 5), (''myclassifier__C'', 1)],
      [(''selectkbest__k'', 5), (''myclassifier__C'', 100)],
      [(''selectkbest__k'', 10), (''myclassifier__C'', 1 / 10)],
      [(''selectkbest__k'', 10), (''myclassifier__C'', 1)],
      [(''selectkbest__k'', 10), (''myclassifier__C'', 100)],
      [(''selectkbest__k'', 20), (''myclassifier__C'', 1 / 10)],
      [(''selectkbest__k'', 20), (''myclassifier__C'', 1)],
      [(''selectkbest__k'', 20), (''myclassifier__C'', 100)]]"
  by (simp add: param_grid_def)

lemma grid_search_Cons:
  assumes "grid \<noteq> []" and "combinations grid = c # cs"
  shows "\<exists>pre post. grid_search fit_pipeline score grid =
            Inr (map fit_pipeline (combinations grid),
                 first_best score (fit_pipeline c) (map fit_pipeline cs)) \<and>
          map fit_pipeline (combinations grid) =
            pre @ first_best score (fit_pipeline c) (map fit_pipeline cs) # post \<and>
          (\<forall>p\<in>set pre. score p < score (first_best score (fit_pipeline c) (map fit_pipeline cs))) \<and>
          (\<forall>p\<in>set post. score p \<le> score (first_best score (fit_pipeline c) (map fit_pipeline cs)))"
proof -
  have "grid_search fit_pipeline score grid =
          Inr (map fit_pipeline (combinations grid),
               first_best score (fit_pipeline c) (map fit_pipeline cs))"
    using assms by (simp add: grid_search_def)
  moreover have "map fit_pipeline (combinations grid) = fit_pipeline c # map fit_pipeline cs"
    using assms(2) by simp
  ultimately show ?thesis
    using first_best_split [of "fit_pipeline c" "map fit_pipeline cs" score] by metis
qed

lemma param_grid_product:
  "set (combinations param_grid) =
     (\<lambda>(k, c). [(''selectkbest__k'', k), (''myclassifier__C'', c)]) `
       ({1, 2, 5, 10, 20} \<times> {1 / 10, 1, 100})"
  unfolding combinations_param_grid by (simp add: image_insert [symmetric] del: image_insert) auto

lemma param_grid_distinct: "distinct (combinations param_grid)"
  unfolding combinations_param_grid by simp

text \<open>
  C9. The candidate mapping of the notebook has exactly 15 combinations, the cartesian
  product of the five values of \<^verbatim>\<open>k\<close> and the three of \<^verbatim>\<open>C\<close>, each once. The grid search
  fits one pipeline per combination, in the order of the enumeration, and returns one of
  them: every pipeline enumerated before it scores strictly less, and none after it
  scores more.
\<close>

theorem grid_search_param_grid:
  "length (combinations param_grid) = 15 \<and> distinct (combinations param_grid) \<and>
   set (combinations param_grid) =
     (\<lambda>(k, c). [(''selectkbest__k'', k), (''myclassifier__C'', c)]) `
       ({1, 2, 5, 10, 20} \<times> {1 / 10, 1, 100}) \<and>
   (\<exists>fits best pre post.
      grid_search fit_pipeline score param_grid = Inr (fits, best) \<and>
      fits = map fit_pipeline (combinations param_grid) \<and> length fits = 15 \<and>
      fits = pre @ best # post \<and>
      (\<forall>p\<in>set pre. score p < score best) \<and> (\<forall>p\<in>set post. score p \<le> score best))"
proof -
  have n: "length (combinations param_grid) = 15"
    unfolding combinations_param_grid by simp
  have g: "param_grid \<noteq> []" by (simp add: param_grid_def)
  obtain c cs where "combinations param_grid = c # cs"
    using n by (cases "combinations param_grid") simp_all
  from grid_search_Cons [OF g this, of fit_pipeline score] n
  have "\<exists>fits best pre post.
      grid_search fit_pipeline score param_grid = Inr (fits, best) \<and>
      fits = map fit_pipeline (combinations param_grid) \<and> length fits = 15 \<and>
      fits = pre @ best # post \<and>
      (\<forall>p\<in>set pre. score p < score best) \<and> (\<forall>p\<in>set post. score p \<le> score best)"
    by (metis length_map)
  with n param_grid_distinct param_grid_product show ?thesis by (intro conjI)
qed

text \<open>
  With the value of \<^verbatim>\<open>C\<close> as the score, five combinations tie at 100 and the first of
  them in the enumeration is returned.
\<close>

theorem grid_search_param_grid_witness:
  "length (combinations param_grid) = 15 \<and>
   grid_search id (\<lambda>combo. snd (combo ! 1)) param_grid =
     Inr (combinations param_grid, [(''selectkbest__k'', 1), (''myclassifier__C'', 100)])"
proof -
  have "grid_search id (\<lambda>combo. snd (combo ! 1)) param_grid =
     Inr (combinations param_grid, [(''selectkbest__k'', 1), (''myclassifier__C'', 100)])"
    unfolding grid_search_def combinations_param_grid by (simp add: param_grid_def)
  then show ?thesis
    using grid_search_param_grid [of id "\<lambda>combo. snd (combo ! 1)"] by simp
qed

section \<open>Fit parameters\<close>

text \<open>
  C10. When validation accepts \<open>(X, y)\<close>, \<^verbatim>\<open>fit\<close> hands \<open>fit_params\<close> to the wrapped
  classifier's \<^verbatim>\<open>fit\<close> as they are, and what that call returns decides the outcome: its
  error is raised with every object unchanged, its fitted state becomes \<^verbatim>\<open>estimator_\<close>
  and its classes \<^verbatim>\<open>classes_\<close>, and nothing else of the instance changes. The fit
  parameters are stored nowhere: two calls whose fit parameters give the same result of
  the wrapped \<^verbatim>\<open>fit\<close> are the same call.
\<close>

theorem fit_params_forwarded_not_stored:
  "(check_X_y X y = Inr (X', y') \<longrightarrow>
      (case svc_fit svc (C (objs w self)) X' y' fit_params of
         Inl e \<Rightarrow> fst (fit svc self X y fit_params w) = Inl e \<and>
                  objs (snd (fit svc self X y fit_params w)) = objs w
       | Inr m \<Rightarrow> fst (fit svc self X y fit_params w) = Inr self \<and>
                  objs (snd (fit svc self X y fit_params w)) =
                    (objs w)(self := (objs w self)\<lparr>estimator_attr := Some m,
                                                  classes_attr := Some (svc_classes svc m)\<rparr>))) \<and>
   (svc_fit svc (C (objs w self)) X y fp1 = svc_fit svc (C (objs w self)) X y fp2 \<longrightarrow>
      fit svc self X y fp1 w = fit svc self X y fp2 w)"
proof (intro conjI impI)
  assume v: "check_X_y X y = Inr (X', y')"
  then obtain n where "len X' = Some n"
    using check_X_y_Inr(1,5) by blast
  with v show "case svc_fit svc (C (objs w self)) X' y' fit_params of
         Inl e \<Rightarrow> fst (fit svc self X y fit_params w) = Inl e \<and>
                  objs (snd (fit svc self X y fit_params w)) = objs w
       | Inr m \<Rightarrow> fst (fit svc self X y fit_params w) = Inr self \<and>
                  objs (snd (fit svc self X y fit_params w)) =
                    (objs w)(self := (objs w self)\<lparr>estimator_attr := Some m,
                                                  classes_attr := Some (svc_classes svc m)\<rparr>)"
    by (simp add: fit_unfold split: sum.split)
next
  assume eq: "svc_fit svc (C (objs w self)) X y fp1 = svc_fit svc (C (objs w self)) X y fp2"
  show "fit svc self X y fp1 w = fit svc self X y fp2 w"
  proof (cases "check_X_y X y")
    case (Inl e)
    then show ?thesis by (simp add: fit_unfold)
  next
    case (Inr p)
    then have "check_X_y X y = Inr (X, y)"
      by (cases p) (auto dest: check_X_y_Inr(1,2))
    with eq show ?thesis by (simp add: fit_unfold split: option.split)
  qed
qed

theorem fit_params_forwarded_not_stored_witness:
  "check_X_y X4 y4 = Inr (X4, y4) \<and>
   fst (fit toy_svc 0 X4 y4 [(''sample_weight'', y4)] world0) = Inr 0 \<and>
   classes_attr (objs (snd (fit toy_svc 0 X4 y4 [(''sample_weight'', y4)] world0)) 0) =
     Some \<lparr>shape = [2], elems = [Num 0, Num 1]\<rparr> \<and>
   fit toy_svc 0 X4 y4 [(''sample_weight'', y4)] world0 = fit toy_svc 0 X4 y4 [] world0"
proof -
  note t = fit_params_forwarded_not_stored
      [where X = X4 and y = y4 and X' = X4 and y' = y4 and svc = toy_svc and w = world0
         and self = 0 and fit_params = "[(''sample_weight'', y4)]"
         and ?fp1.0 = "[(''sample_weight'', y4)]" and ?fp2.0 = "[]"]
  have a: "fst (fit toy_svc 0 X4 y4 [(''sample_weight'', y4)] world0) = Inr 0"
    and b: "classes_attr (objs (snd (fit toy_svc 0 X4 y4 [(''sample_weight'', y4)] world0)) 0) =
       Some \<lparr>shape = [2], elems = [Num 0, Num 1]\<rparr>"
    using t X4_y4_valid toy_fit_X4_y4 [of _ "[(''sample_weight'', y4)]"]
    by (simp_all add: toy_classes)
  have c: "fit toy_svc 0 X4 y4 [(''sample_weight'', y4)] world0 = fit toy_svc 0 X4 y4 [] world0"
    using t toy_fit_X4_y4 [of _ "[(''sample_weight'', y4)]"] toy_fit_X4_y4 [of _ "[]"] by simp
  show ?thesis using X4_y4_valid a b c by (intro conjI)
qed

end
